theory Spec2Isabelle
  imports Main
begin

section \<open>Standard-library helpers used by the code\<close>

text \<open>
  \<^verbatim>\<open>strings.Split(s, ".")\<close>: the substrings between the separators, in order; the
  empty string gives one empty part.
\<close>

fun split_acc :: "char \<Rightarrow> string \<Rightarrow> string \<Rightarrow> string list" where
  "split_acc sep acc [] = [rev acc]"
| "split_acc sep acc (c # cs) =
     (if c = sep then rev acc # split_acc sep [] cs else split_acc sep (c # acc) cs)"

definition Split_str :: "string \<Rightarrow> char \<Rightarrow> string list" where
  "Split_str s sep = split_acc sep [] s"

text \<open>
  \<^verbatim>\<open>strconv.Atoi\<close> on a platform whose \<^verbatim>\<open>int\<close> has 64 bits: an optional sign, then
  at least one decimal digit and nothing else. The digits are accumulated left to right
  in an unsigned 64-bit value; the first character that is not a digit is a syntax
  error, the first step that leaves the unsigned range is a range error, and a value
  that does not fit the signed range is a range error too.
\<close>

datatype num_kind = ErrSyntax | ErrRange

definition digit_val :: "char \<Rightarrow> nat option" where
  "digit_val c =
     (let n = (of_char c :: nat) in if 48 \<le> n \<and> n \<le> 57 then Some (n - 48) else None)"

fun parse_uint :: "nat \<Rightarrow> string \<Rightarrow> num_kind + nat" where
  "parse_uint n [] = Inr n"
| "parse_uint n (c # cs) =
     (case digit_val c of
        None \<Rightarrow> Inl ErrSyntax
      | Some d \<Rightarrow>
          if n * 10 + d > 2 ^ 64 - 1 then Inl ErrRange else parse_uint (n * 10 + d) cs)"

definition Atoi :: "string \<Rightarrow> num_kind + int" where
  "Atoi s =
     (case s of
        [] \<Rightarrow> Inl ErrSyntax
      | c # cs \<Rightarrow>
          let neg = (c = CHR ''-'');
              body = (if c = CHR ''-'' \<or> c = CHR ''+'' then cs else s)
          in if body = [] then Inl ErrSyntax
             else (case parse_uint 0 body of
                     Inl k \<Rightarrow> Inl k
                   | Inr un \<Rightarrow>
                       if \<not> neg \<and> un \<ge> 2 ^ 63 then Inl ErrRange
                       else if neg \<and> un > 2 ^ 63 then Inl ErrRange
                       else Inr (if neg then - int un else int un)))"

text \<open>Go's integer division truncates towards zero.\<close>

definition go_quot :: "int \<Rightarrow> int \<Rightarrow> int" where
  "go_quot a b = sgn a * sgn b * (\<bar>a\<bar> div \<bar>b\<bar>)"

section \<open>Errors\<close>

text \<open>
  \<^verbatim>\<open>exterrors.EnhancedCode\<close> is an array of three integers.
  \<^verbatim>\<open>exterrors.SMTPError\<close> is a struct; the fields the code sets are \<^verbatim>\<open>Code\<close>,
  \<^verbatim>\<open>EnhancedCode\<close>, \<^verbatim>\<open>Message\<close>, \<^verbatim>\<open>CheckName\<close>, \<^verbatim>\<open>Err\<close> (the wrapped cause),
  \<^verbatim>\<open>Reason\<close> (here \<open>ErrReason\<close>) and \<^verbatim>\<open>Misc\<close>. A field that a struct literal leaves
  out has Go's zero value: the empty string, no cause, no entries.

  A value of Go's \<^verbatim>\<open>error\<close> interface is one of: an \<^verbatim>\<open>*SMTPError\<close>; the result of
  \<^verbatim>\<open>exterrors.WithFields(err, fields)\<close>, which wraps \<open>err\<close>; or an error made
  outside these packages (by the resolver, by \<^verbatim>\<open>address.Split\<close>), of type \<open>'e\<close>.
\<close>

type_synonym EnhancedCode = "int \<times> int \<times> int"

datatype 'e error =
    SMTP "'e SMTPError"
  | WithFields "'e error" "(string \<times> string) list"
  | Foreign 'e
and 'e SMTPError =
    SMTPError (Code: int) (EnhancedCode: EnhancedCode) (Message: string)
      (CheckName: string) (Err: "'e error option") (ErrReason: string)
      (Misc: "(string \<times> string) list")

text \<open>The next cause of an error, and the whole chain of causes starting at the error.\<close>

fun unwrap :: "'e error \<Rightarrow> 'e error option" where
  "unwrap (SMTP r) = Err r"
| "unwrap (WithFields e fs) = Some e"
| "unwrap (Foreign x) = None"

fun chain :: "'e error \<Rightarrow> 'e error list" where
  "chain (SMTP (SMTPError c ec m cn err rs misc)) =
     SMTP (SMTPError c ec m cn err rs misc) # (case err of None \<Rightarrow> [] | Some e \<Rightarrow> chain e)"
| "chain (WithFields e fs) = WithFields e fs # chain e"
| "chain (Foreign x) = [Foreign x]"

text \<open>
  The errors that the directive parsers make with \<^verbatim>\<open>errors.New\<close> and
  \<^verbatim>\<open>fmt.Errorf\<close>, one constructor for each message:
  \<^item> \<open>ErrNoArguments\<close>: "expected at least 1 argument";
  \<^item> \<open>ErrInvalidAction\<close>: "invalid action";
  \<^item> \<open>ErrEmptyMessage\<close>: "message can't be empty";
  \<^item> \<open>ErrInvalidEnhancedCode\<close>: "enhanced code should use either 4 or 5 as a first number";
  \<^item> \<open>ErrInvalidCodeInteger\<close>: "invalid error code integer: ..." around the error of
    \<^verbatim>\<open>strconv.Atoi\<close>;
  \<^item> \<open>ErrInvalidCode\<close>: "error code should start with either 4 or 5";
  \<^item> \<open>ErrArgCount\<close>: "invalid count of arguments";
  \<^item> \<open>ErrPartCount\<close>: "wrong amount of enhanced code parts";
  \<^item> \<open>ErrNum\<close>: the error of \<^verbatim>\<open>strconv.Atoi\<close> on a part of an enhanced code, returned
    as it is, with the part it was called on.
\<close>

datatype parse_error =
    ErrNoArguments
  | ErrInvalidAction
  | ErrEmptyMessage
  | ErrInvalidEnhancedCode
  | ErrInvalidCodeInteger string num_kind
  | ErrInvalidCode
  | ErrArgCount
  | ErrPartCount
  | ErrNum string num_kind

section \<open>The action policy\<close>

subsection \<open>parseEnhancedCode\<close>

text \<open>\<^verbatim>\<open>code[i] = num\<close> on the array of three integers.\<close>

fun set_at :: "EnhancedCode \<Rightarrow> nat \<Rightarrow> int \<Rightarrow> EnhancedCode" where
  "set_at (a, b, c) i num =
     (if i = 0 then (num, b, c) else if i = 1 then (a, num, c) else (a, b, num))"

text \<open>The loop over the parts: the first part that \<^verbatim>\<open>strconv.Atoi\<close> refuses ends it.\<close>

fun parse_parts :: "EnhancedCode \<Rightarrow> nat \<Rightarrow> string list \<Rightarrow> parse_error + EnhancedCode" where
  "parse_parts code i [] = Inr code"
| "parse_parts code i (part # rest) =
     (case Atoi part of
        Inl k \<Rightarrow> Inl (ErrNum part k)
      | Inr num \<Rightarrow> parse_parts (set_at code i num) (Suc i) rest)"

definition parseEnhancedCode :: "string \<Rightarrow> parse_error + EnhancedCode" where
  "parseEnhancedCode s =
     (let parts = Split_str s (CHR ''.'')
      in if length parts \<noteq> 3 then Inl ErrPartCount else parse_parts (0, 0, 0) 0 parts)"

subsection \<open>ParseRejectDirective\<close>

definition default_message :: string where
  "default_message = ''Message rejected due to a local policy''"

definition reject_error :: "int \<Rightarrow> EnhancedCode \<Rightarrow> string \<Rightarrow> 'e SMTPError" where
  "reject_error code enchCode msg =
     SMTPError code enchCode msg [] None ''reject directive used'' []"

text \<open>
  The \<^verbatim>\<open>switch\<close> on the number of arguments falls through from \<^verbatim>\<open>case 3\<close> to
  \<^verbatim>\<open>case 2\<close> to \<^verbatim>\<open>case 1\<close>; each case is a function here, which ends by entering
  the next one.
\<close>

definition reject_case1 :: "string \<Rightarrow> EnhancedCode \<Rightarrow> string \<Rightarrow> parse_error + 'e SMTPError" where
  "reject_case1 arg0 enchCode msg =
     (case Atoi arg0 of
        Inl k \<Rightarrow> Inl (ErrInvalidCodeInteger arg0 k)
      | Inr code \<Rightarrow>
          if go_quot code 100 \<noteq> 4 \<and> go_quot code 100 \<noteq> 5 then Inl ErrInvalidCode
          else Inr (reject_error code enchCode msg))"

definition reject_case2 :: "string \<Rightarrow> string \<Rightarrow> string \<Rightarrow> parse_error + 'e SMTPError" where
  "reject_case2 arg0 arg1 msg =
     (case parseEnhancedCode arg1 of
        Inl e \<Rightarrow> Inl e
      | Inr enchCode \<Rightarrow>
          if fst enchCode \<noteq> 4 \<and> fst enchCode \<noteq> 5 then Inl ErrInvalidEnhancedCode
          else reject_case1 arg0 enchCode msg)"

definition reject_case3 :: "string \<Rightarrow> string \<Rightarrow> string \<Rightarrow> parse_error + 'e SMTPError" where
  "reject_case3 arg0 arg1 arg2 =
     (if arg2 = [] then Inl ErrEmptyMessage else reject_case2 arg0 arg1 arg2)"

fun ParseRejectDirective :: "string list \<Rightarrow> parse_error + 'e SMTPError" where
  "ParseRejectDirective [arg0, arg1, arg2] = reject_case3 arg0 arg1 arg2"
| "ParseRejectDirective [arg0, arg1] = reject_case2 arg0 arg1 default_message"
| "ParseRejectDirective [arg0] = reject_case1 arg0 (5, 7, 0) default_message"
| "ParseRejectDirective [] = Inr (reject_error 554 (5, 7, 0) default_message)"
| "ParseRejectDirective args = Inl ErrArgCount"

subsection \<open>FailAction\<close>

record 'e FailAction =
  Quarantine :: bool
  Reject :: bool
  ReasonOverride :: "'e SMTPError option"

text \<open>
  \<^verbatim>\<open>module.CheckResult\<close>: the fields the code reads and writes are \<^verbatim>\<open>Reason\<close>,
  \<^verbatim>\<open>Quarantine\<close> and \<^verbatim>\<open>Reject\<close> (here \<open>ResQuarantine\<close> and \<open>ResReject\<close>).
\<close>

record 'e CheckResult =
  Reason :: "'e error option"
  ResQuarantine :: bool
  ResReject :: bool

definition ParseActionDirective :: "string list \<Rightarrow> parse_error + 'e FailAction" where
  "ParseActionDirective args =
     (case args of
        [] \<Rightarrow> Inl ErrNoArguments
      | arg0 # rest \<Rightarrow>
          let res = \<lparr>Quarantine = False, Reject = False, ReasonOverride = None\<rparr>;
              flags = (\<lambda>r. r\<lparr>Reject := (arg0 = ''reject''), Quarantine := (arg0 = ''quarantine'')\<rparr>)
          in if arg0 = ''reject'' \<or> arg0 = ''quarantine'' then
               (if length args > 1 then
                  (case ParseRejectDirective rest of
                     Inl e \<Rightarrow> Inl e
                   | Inr ov \<Rightarrow> Inr (flags (res\<lparr>ReasonOverride := Some ov\<rparr>)))
                else Inr (flags res))
             else if arg0 = ''ignore'' then Inr (flags res)
             else Inl ErrInvalidAction)"

definition Apply :: "'e FailAction \<Rightarrow> 'e CheckResult \<Rightarrow> 'e CheckResult" where
  "Apply cfa originalRes =
     (case Reason originalRes of
        None \<Rightarrow> originalRes
      | Some reason \<Rightarrow>
          let wrapped =
                (case ReasonOverride cfa of
                   None \<Rightarrow> originalRes
                 | Some ov \<Rightarrow>
                     originalRes\<lparr>Reason :=
                       Some (SMTP (SMTPError (Code ov) (EnhancedCode ov) (Message ov) []
                                     (Some reason) [] []))\<rparr>)
          in wrapped\<lparr>ResQuarantine := Quarantine cfa \<or> ResQuarantine wrapped,
                     ResReject := Reject cfa \<or> ResReject wrapped\<rparr>)"

section \<open>The identity validators\<close>

subsection \<open>What the validators take from outside\<close>

text \<open>
  The functions of other packages that the validators call are parameters of the
  model, one field each:
  \<^item> \<open>AddressSplit\<close>: \<^verbatim>\<open>address.Split\<close>, the mailbox and the domain of an address, or
    an error;
  \<^item> \<open>IsTemporary\<close>: \<^verbatim>\<open>exterrors.IsTemporary\<close> on an error of the resolver;
  \<^item> \<open>ErrorText\<close>: the \<^verbatim>\<open>Error()\<close> text of such an error;
  \<^item> \<open>EqualFold\<close>: \<^verbatim>\<open>strings.EqualFold\<close>;
  \<^item> \<open>ParseIP\<close>: \<^verbatim>\<open>net.ParseIP\<close>, with \<open>None\<close> for its \<^verbatim>\<open>nil\<close>;
  \<^item> \<open>IPEqual\<close>: \<^verbatim>\<open>net.IP.Equal\<close>.
\<close>

record ('e, 'ip) externals =
  AddressSplit :: "string \<Rightarrow> 'e + (string \<times> string)"
  IsTemporary :: "'e \<Rightarrow> bool"
  ErrorText :: "'e \<Rightarrow> string"
  EqualFold :: "string \<Rightarrow> string \<Rightarrow> bool"
  ParseIP :: "string \<Rightarrow> 'ip option"
  IPEqual :: "'ip \<Rightarrow> 'ip \<Rightarrow> bool"

text \<open>
  The value that \<^verbatim>\<open>SrcRDNSName.Get()\<close> gives is a string or something else; the
  source address is a \<^verbatim>\<open>*net.TCPAddr\<close> or something else; a \<^verbatim>\<open>net.MX\<close> has a host
  and a preference. Of a \<^verbatim>\<open>net.IPAddr\<close> that the resolver returns the code reads the
  \<^verbatim>\<open>IP\<close> only, so \<open>LookupIPAddr\<close> returns those.
\<close>

datatype future_val = StringVal string | NonString

datatype 'ip Addr = TCPAddr (IP: 'ip) (Port: int) | NonTCPAddr

record MX =
  Host :: string
  Pref :: nat

record 'ip MsgMetadata =
  SrcRDNSName :: "future_val option"
  SrcHostname :: string
  SrcAddr :: "'ip Addr"

record ('e, 'ip) StatelessCheckContext =
  MsgMeta :: "'ip MsgMetadata"
  LookupMX :: "string \<Rightarrow> 'e + MX list"
  LookupIPAddr :: "string \<Rightarrow> 'e + 'ip list"

text \<open>
  What a validator does besides returning: the calls of the logger (with the message or
  the format string of the call) and the queries to the resolver, in order.
\<close>

datatype event = Log string | QueryMX string | QueryIPAddr string

text \<open>\<^verbatim>\<open>module.CheckResult{}\<close> and \<^verbatim>\<open>module.CheckResult{Reason: r}\<close>.\<close>

definition pass :: "'e CheckResult" where
  "pass = \<lparr>Reason = None, ResQuarantine = False, ResReject = False\<rparr>"

definition fail :: "'e error \<Rightarrow> 'e CheckResult" where
  "fail r = \<lparr>Reason = Some r, ResQuarantine = False, ResReject = False\<rparr>"

text \<open>\<^verbatim>\<open>strings.TrimSuffix(s, ".")\<close>, \<^verbatim>\<open>strings.HasPrefix(s, "[")\<close>, \<^verbatim>\<open>strings.HasSuffix(s, "]")\<close>.\<close>

definition TrimSuffix_dot :: "string \<Rightarrow> string" where
  "TrimSuffix_dot s = (if s \<noteq> [] \<and> last s = CHR ''.'' then butlast s else s)"


subsection \<open>requireMatchingRDNS\<close>

definition requireMatchingRDNS ::
  "('e, 'ip) externals \<Rightarrow> ('e, 'ip) StatelessCheckContext \<Rightarrow> 'e CheckResult \<times> event list" where
  "requireMatchingRDNS ext ctx =
     (case SrcRDNSName (MsgMeta ctx) of
        None \<Rightarrow> (pass, [Log ''rDNS lookup is disabled, skipping''])
      | Some NonString \<Rightarrow>
          (fail (SMTP (SMTPError 40 (4, 7, 25) ''DNS lookup failure during policy check''
                         ''require_matching_rdns'' None [] [])), [])
      | Some (StringVal name) \<Rightarrow>
          let srcDomain = TrimSuffix_dot (SrcHostname (MsgMeta ctx));
              rdnsName = TrimSuffix_dot name
          in if EqualFold ext rdnsName srcDomain
             then (pass, [Log ''PTR record %s matches source domain, OK''])
             else (fail (SMTP (SMTPError 550 (5, 7, 25)
                                 ''rDNS name does not match source hostname''
                                 ''require_matching_rdns'' None [] [])), []))"

subsection \<open>requireMXRecord\<close>

text \<open>
  The reason after a failed query, in both validators that query the resolver: the
  code and the enhanced code depend on whether the error is temporary.
\<close>

definition lookup_failure :: "('e, 'ip) externals \<Rightarrow> string \<Rightarrow> 'e \<Rightarrow> 'e error" where
  "lookup_failure ext checkName err =
     (let code = (if IsTemporary ext err then 420 else 501);
          enchCode = (if IsTemporary ext err then (4, 7, 27) else (5, 7, 27))
      in SMTP (SMTPError code enchCode ''DNS lookup failure during policy check'' checkName
                 (Some (Foreign err)) [] [(''reason'', ErrorText ext err)]))"

definition requireMXRecord ::
  "('e, 'ip) externals \<Rightarrow> ('e, 'ip) StatelessCheckContext \<Rightarrow> string \<Rightarrow>
     'e CheckResult \<times> event list" where
  "requireMXRecord ext ctx mailFrom =
     (if mailFrom = [] then (pass, [])
      else case AddressSplit ext mailFrom of
        Inl err \<Rightarrow>
          (fail (WithFields (Foreign err) [(''check'', ''require_matching_rdns'')]), [])
      | Inr (mailbox, domain) \<Rightarrow>
          if domain = [] then
            (fail (SMTP (SMTPError 501 (5, 1, 8) ''No domain part'' ''require_mx_record''
                           None [] [])), [])
          else case SrcAddr (MsgMeta ctx) of
            NonTCPAddr \<Rightarrow> (pass, [Log ''non-TCP/IP source''])
          | TCPAddr ip port \<Rightarrow>
              (case LookupMX ctx domain of
                 Inl err \<Rightarrow> (fail (lookup_failure ext ''require_mx_record'' err), [QueryMX domain])
               | Inr srcMx \<Rightarrow>
                   if length srcMx = 0 then
                     (fail (SMTP (SMTPError 501 (5, 7, 27)
                                    ''Domain in MAIL FROM has no MX records''
                                    ''require_mx_record'' None [] [])), [QueryMX domain])
                   else (pass, [QueryMX domain])))"

subsection \<open>requireMatchingEHLO\<close>


section \<open>Notions used in the statements\<close>

text \<open>The first decimal digit of a number.\<close>

function leading_digit :: "nat \<Rightarrow> nat" where
  "leading_digit n = (if n < 10 then n else leading_digit (n div 10))"
  by pat_completeness auto
termination
  by (relation "measure id") auto

declare leading_digit.simps [simp del]

text \<open>
  The check that an error names: the \<^verbatim>\<open>CheckName\<close> of an \<^verbatim>\<open>SMTPError\<close>, the
  \<^verbatim>\<open>"check"\<close> field of an error wrapped by \<^verbatim>\<open>exterrors.WithFields\<close>.
\<close>

fun check_name_of :: "'e error \<Rightarrow> string option" where
  "check_name_of (SMTP r) = Some (CheckName r)"
| "check_name_of (WithFields e fs) = map_of fs ''check''"
| "check_name_of (Foreign x) = None"

text \<open>
  An environment and a connection for the examples. An outside error is its text and
  whether it is temporary; an IP address is a number; an address is split at its first
  at-sign and refused when it has none; the resolver finds nothing and says so with a
  temporary error for the domain \<open>slow.example\<close>, with a permanent one for
  \<open>gone.example\<close>, and with an empty answer for every other name.
\<close>

definition example_ext :: "(string \<times> bool, nat) externals" where
  "example_ext =
     \<lparr>AddressSplit =
        (\<lambda>a. if CHR ''@'' \<in> set a
             then Inr (takeWhile (\<lambda>c. c \<noteq> CHR ''@'') a, tl (dropWhile (\<lambda>c. c \<noteq> CHR ''@'') a))
             else Inl (''address: missing at-sign'', False)),
      IsTemporary = snd,
      ErrorText = fst,
      EqualFold = (=),
      ParseIP = (\<lambda>s. None),
      IPEqual = (=)\<rparr>"

definition example_lookup :: "string \<Rightarrow> (string \<times> bool) + 'a list" where
  "example_lookup name =
     (if name = ''slow.example'' then Inl (''i/o timeout'', True)
      else if name = ''gone.example'' then Inl (''no such host'', False)
      else Inr [])"

definition example_ctx :: "string \<Rightarrow> (string \<times> bool, nat) StatelessCheckContext" where
  "example_ctx ehlo =
     \<lparr>MsgMeta = \<lparr>SrcRDNSName = None, SrcHostname = ehlo, SrcAddr = TCPAddr 1 25\<rparr>,
      LookupMX = example_lookup,
      LookupIPAddr = example_lookup\<rparr>"

section \<open>Arithmetic of reply codes\<close>

lemma go_quot_100_iff:
  "go_quot code 100 = 4 \<longleftrightarrow> 400 \<le> code \<and> code \<le> 499"
  "go_quot code 100 = 5 \<longleftrightarrow> 500 \<le> code \<and> code \<le> 599"
  unfolding go_quot_def by (cases "code < 0"; cases "code = 0"; simp add: sgn_if; arith)+

lemma leading_digit_small: "n < 10 \<Longrightarrow> leading_digit n = n"
  by (simp add: leading_digit.simps [of n])

lemma leading_digit_step: "10 \<le> n \<Longrightarrow> leading_digit n = leading_digit (n div 10)"
  by (simp add: leading_digit.simps [of n])

lemma leading_digit_3digits:
  assumes "100 \<le> n" "n < 1000"
  shows "leading_digit n = n div 100"
proof -
  have "leading_digit n = leading_digit (n div 10)"
    using assms by (simp add: leading_digit_step)
  also have "\<dots> = leading_digit (n div 10 div 10)"
    using assms by (simp add: leading_digit_step)
  also have "\<dots> = n div 10 div 10"
    using assms by (intro leading_digit_small) simp
  finally show ?thesis by (simp add: div_mult2_eq [symmetric])
qed

lemma leading_digit_of_code:
  assumes "go_quot code 100 = 4 \<or> go_quot code 100 = 5"
  shows "int (leading_digit (nat \<bar>code\<bar>)) = go_quot code 100"
proof -
  from assms have r: "400 \<le> code" "code \<le> 599" by (auto simp: go_quot_100_iff)
  then have "leading_digit (nat \<bar>code\<bar>) = nat \<bar>code\<bar> div 100"
    by (intro leading_digit_3digits) auto
  moreover have "int (nat \<bar>code\<bar> div 100) = go_quot code 100"
    using r by (simp add: go_quot_def zdiv_int)
  ultimately show ?thesis by simp
qed

section \<open>Lemmas about the parsers\<close>

lemma reject_case1_Inr:
  "reject_case1 arg0 ec msg = Inr r \<Longrightarrow>
     (\<exists>code. Atoi arg0 = Inr code \<and> (go_quot code 100 = 4 \<or> go_quot code 100 = 5) \<and>
        r = reject_error code ec msg)"
  by (auto simp: reject_case1_def split: sum.splits if_splits)

lemma reject_case2_Inr:
  "reject_case2 arg0 arg1 msg = Inr r \<Longrightarrow>
     (\<exists>ec. parseEnhancedCode arg1 = Inr ec \<and> (fst ec = 4 \<or> fst ec = 5) \<and>
        reject_case1 arg0 ec msg = Inr r)"
  by (auto simp: reject_case2_def split: sum.splits if_splits)

lemma reject_case1_bad_code:
  assumes "Atoi arg0 = Inr code"
    and "leading_digit (nat \<bar>code\<bar>) \<noteq> 4" and "leading_digit (nat \<bar>code\<bar>) \<noteq> 5"
  shows "reject_case1 arg0 ec msg = Inl ErrInvalidCode"
proof -
  have "go_quot code 100 \<noteq> 4 \<and> go_quot code 100 \<noteq> 5"
    using leading_digit_of_code [of code] assms(2,3) by auto
  then show ?thesis using assms(1) by (simp add: reject_case1_def)
qed

lemma ParseRejectDirective_long:
  "3 < length args \<Longrightarrow> ParseRejectDirective args = Inl ErrArgCount"
  by (cases args rule: ParseRejectDirective.cases) simp_all

lemma ParseRejectDirective_Inr:
  assumes "ParseRejectDirective args = Inr r"
  shows "(go_quot (Code r) 100 = 4 \<or> go_quot (Code r) 100 = 5) \<and>
         (fst (EnhancedCode r) = 4 \<or> fst (EnhancedCode r) = 5)"
  using assms
proof (cases args rule: ParseRejectDirective.cases)
  case (1 arg0 arg1 arg2)
  with assms have "reject_case2 arg0 arg1 arg2 = Inr r"
    by (simp add: reject_case3_def split: if_splits)
  then show ?thesis
    by (auto dest!: reject_case2_Inr reject_case1_Inr simp: reject_error_def)
next
  case (2 arg0 arg1)
  with assms have "reject_case2 arg0 arg1 default_message = Inr r" by simp
  then show ?thesis
    by (auto dest!: reject_case2_Inr reject_case1_Inr simp: reject_error_def)
next
  case (3 arg0)
  with assms have "reject_case1 arg0 (5, 7, 0) default_message = Inr r" by simp
  then show ?thesis
    by (auto dest!: reject_case1_Inr simp: reject_error_def)
next
  case 4
  with assms show ?thesis by (auto simp: reject_error_def go_quot_def)
next
  case (5 a b c d rest)
  with assms show ?thesis by simp
qed

lemma parseEnhancedCode_Inl:
  "parseEnhancedCode s = Inl e \<Longrightarrow> e = ErrPartCount \<or> (\<exists>p k. e = ErrNum p k)"
proof -
  have parts: "parse_parts code i ps = Inl e \<Longrightarrow> \<exists>p k. e = ErrNum p k" for code i ps
    by (induction ps arbitrary: code i) (auto split: sum.splits)
  assume "parseEnhancedCode s = Inl e"
  then show ?thesis
    by (auto simp: parseEnhancedCode_def Let_def split: if_splits dest: parts)
qed

lemma length_3_iff: "length xs = 3 \<longleftrightarrow> (\<exists>a b c. xs = [a, b, c])"
  by (cases xs; simp; cases "tl xs"; simp; cases "tl (tl xs)"; simp)

lemma parseEnhancedCode_Inr_iff:
  "parseEnhancedCode s = Inr (a, b, c) \<longleftrightarrow>
     (\<exists>p0 p1 p2. Split_str s (CHR ''.'') = [p0, p1, p2] \<and>
        Atoi p0 = Inr a \<and> Atoi p1 = Inr b \<and> Atoi p2 = Inr c)"
  by (auto simp: parseEnhancedCode_def Let_def length_3_iff split: sum.splits)

lemma eval_Atoi_300: "Atoi ''300'' = Inr 300"
  by (simp add: Atoi_def digit_val_def)

lemma leading_digit_300: "leading_digit 300 = 3"
  by (simp add: leading_digit_3digits)

lemma eval_parseEnhancedCode_571: "parseEnhancedCode ''5.7.1'' = Inr (5, 7, 1)"
  by (simp add: parseEnhancedCode_def Split_str_def Atoi_def digit_val_def)

section \<open>Lemmas about errors and the validators\<close>

lemma chain_SMTP: "chain (SMTP r) = SMTP r # (case Err r of None \<Rightarrow> [] | Some e \<Rightarrow> chain e)"
  by (cases r) simp

lemma chain_head: "chain e \<noteq> [] \<and> hd (chain e) = e"
  by (cases e rule: chain.cases) simp_all




lemma requireMXRecord_check_names:
  assumes "Reason (fst (requireMXRecord ext ctx mailFrom)) = Some r"
  shows "(case AddressSplit ext mailFrom of
            Inl err \<Rightarrow> r = WithFields (Foreign err) [(''check'', ''require_matching_rdns'')]
          | Inr md \<Rightarrow> check_name_of r = Some ''require_mx_record'')"
  using assms
  by (auto simp: requireMXRecord_def fail_def pass_def lookup_failure_def
           split: if_splits sum.splits Addr.splits prod.splits)




section \<open>The reverse-DNS validator\<close>

text \<open>
  C1. When a reverse-DNS lookup was attempted and its result is not a string,
  \<open>requireMatchingRDNS\<close> fails with a reason whose enhanced code is \<open>4.7.25\<close>, of
  class 4, and whose numeric code is 40: a number of two digits, not a reply code of
  three digits that starts with 4.
\<close>

theorem requireMatchingRDNS_lookup_failed:
  "fst (requireMatchingRDNS ext (ctx\<lparr>MsgMeta := (MsgMeta ctx)\<lparr>SrcRDNSName := Some NonString\<rparr>\<rparr>)) =
     fail (SMTP (SMTPError 40 (4, 7, 25) ''DNS lookup failure during policy check''
                   ''require_matching_rdns'' None [] [])) \<and>
   Code (SMTPError 40 (4, 7, 25) ''DNS lookup failure during policy check''
           ''require_matching_rdns'' (None :: 'e error option) [] []) < 100"
  by (simp add: requireMatchingRDNS_def)

section \<open>Resolver errors in the MX and EHLO validators\<close>



section \<open>Merging a verdict with the policy\<close>

text \<open>
  C3, as the claim puts it, asks for a flag of the result to be set whenever the policy
  sets it. A verdict without a reason is returned as it is, so a policy that
  quarantines and rejects leaves both flags of a passing verdict unset.
\<close>

theorem Apply_flags_counterexample:
  "Quarantine \<lparr>Quarantine = True, Reject = True, ReasonOverride = None :: unit SMTPError option\<rparr>
   \<and> \<not> ResQuarantine (Apply \<lparr>Quarantine = True, Reject = True, ReasonOverride = None\<rparr>
          \<lparr>Reason = None :: unit error option, ResQuarantine = False, ResReject = False\<rparr>)
   \<and> Reject \<lparr>Quarantine = True, Reject = True, ReasonOverride = None :: unit SMTPError option\<rparr>
   \<and> \<not> ResReject (Apply \<lparr>Quarantine = True, Reject = True, ReasonOverride = None\<rparr>
          \<lparr>Reason = None :: unit error option, ResQuarantine = False, ResReject = False\<rparr>)"
  by (simp add: Apply_def)

text \<open>
  C3, amended. \<open>Apply\<close> never clears a flag that the verdict has set. When the verdict has
  a reason, each flag of the result is the disjunction of the policy's flag and the
  verdict's, so it is set whenever either of them sets it. When the verdict has no
  reason, the result is the verdict, whatever the policy says.
\<close>

theorem Apply_monotonic:
  "(ResQuarantine v \<longrightarrow> ResQuarantine (Apply p v)) \<and>
   (ResReject v \<longrightarrow> ResReject (Apply p v)) \<and>
   (Reason v \<noteq> None \<longrightarrow>
      ResQuarantine (Apply p v) = (Quarantine p \<or> ResQuarantine v) \<and>
      ResReject (Apply p v) = (Reject p \<or> ResReject v)) \<and>
   (Reason v = None \<longrightarrow> Apply p v = v)"
  by (auto simp: Apply_def Let_def split: option.splits)

text \<open>
The theorem on a failing verdict and a policy that quarantines.
\<close>

theorem Apply_monotonic_witness:
  "Reason (fail (Foreign ())) \<noteq> None \<and>
   ResQuarantine (Apply \<lparr>Quarantine = True, Reject = False, ReasonOverride = None\<rparr> (fail (Foreign ()))) \<and>
   \<not> ResReject (Apply \<lparr>Quarantine = True, Reject = False, ReasonOverride = None\<rparr> (fail (Foreign ())))"
  using Apply_monotonic [of "fail (Foreign ())" "\<lparr>Quarantine = True, Reject = False, ReasonOverride = None\<rparr>"]
  by (simp add: fail_def)

text \<open>
  C4. When the policy has a reason override and the verdict has a reason, the reason of
  the result is an \<open>SMTPError\<close> with the code, the enhanced code and the message of the
  override, whose cause is the verdict's reason: the chain of causes of the result is
  the new error followed by the whole chain of the original reason, which is therefore
  found in it unchanged.
\<close>

theorem Apply_override_wraps:
  assumes "ReasonOverride p = Some ov" and "Reason v = Some r"
  shows "\<exists>r'. Reason (Apply p v) = Some (SMTP r') \<and>
           Code r' = Code ov \<and> EnhancedCode r' = EnhancedCode ov \<and> Message r' = Message ov \<and>
           Err r' = Some r \<and> unwrap (SMTP r') = Some r \<and>
           chain (SMTP r') = SMTP r' # chain r \<and> r \<in> set (chain (SMTP r'))"
proof -
  let ?r' = "SMTPError (Code ov) (EnhancedCode ov) (Message ov) [] (Some r) [] []"
  have "Reason (Apply p v) = Some (SMTP ?r')"
    using assms by (simp add: Apply_def)
  moreover have "r \<in> set (chain r)"
    using chain_head [of r] by (metis list.set_sel(1))
  ultimately show ?thesis
    by (intro exI [of _ ?r']) simp
qed

text \<open>
The theorem on a verdict that fails with an outside error, under an override with code 550.
\<close>

theorem Apply_override_wraps_witness:
  "ReasonOverride \<lparr>Quarantine = False, Reject = True,
      ReasonOverride = Some (SMTPError 550 (5, 7, 1) ''no'' [] None ''reject directive used'' [])\<rparr>
     = Some (SMTPError 550 (5, 7, 1) ''no'' [] None ''reject directive used'' []) \<and>
   Reason (fail (Foreign ())) = Some (Foreign ()) \<and>
   (\<exists>r'. Reason (Apply \<lparr>Quarantine = False, Reject = True,
             ReasonOverride = Some (SMTPError 550 (5, 7, 1) ''no'' [] None ''reject directive used'' [])\<rparr>
             (fail (Foreign ()))) = Some (SMTP r') \<and>
          Code r' = 550 \<and> EnhancedCode r' = (5, 7, 1) \<and> Message r' = ''no'' \<and>
          chain (SMTP r') = [SMTP r', Foreign ()])"
proof -
  let ?ov = "SMTPError 550 (5, 7, 1) ''no'' [] None ''reject directive used'' [] :: unit SMTPError"
  let ?p = "\<lparr>Quarantine = False, Reject = True, ReasonOverride = Some ?ov\<rparr>"
  have h1: "ReasonOverride ?p = Some ?ov" by simp
  have h2: "Reason (fail (Foreign ())) = Some (Foreign ())" by (simp add: fail_def)
  from Apply_override_wraps [OF h1 h2] h1 h2 show ?thesis by auto
qed

section \<open>The reject directive\<close>

text \<open>
  C5, as the claim puts it, asks for the invalid-code error whenever the first argument
  is an integer that does not start with 4 or 5. The enhanced code is checked before
  the code: with the arguments \<open>300\<close> and \<open>abc\<close> the error is the one about the parts
  of the enhanced code.
\<close>

theorem ParseRejectDirective_order_counterexample:
  "Atoi ''300'' = Inr 300 \<and> leading_digit (nat \<bar>300\<bar>) = 3 \<and>
   (ParseRejectDirective [''300'', ''abc''] :: parse_error + unit SMTPError) = Inl ErrPartCount"
  by (simp add: eval_Atoi_300 leading_digit_300 reject_case2_def parseEnhancedCode_def
        Split_str_def)

text \<open>
  C5, amended. Without arguments \<open>ParseRejectDirective\<close> returns the code 554, the
  enhanced code \<open>5.7.0\<close> and the message "Message rejected due to a local policy".
  With more than three arguments it fails with the argument-count error. When the first
  argument is an integer whose first digit is neither 4 nor 5, one, two or three
  arguments all fail, with the error of the first check that fails, in the order of the
  code: an empty third argument gives the empty-message error; otherwise a second
  argument that \<open>parseEnhancedCode\<close> refuses gives the error of \<open>parseEnhancedCode\<close>;
  otherwise an enhanced code whose class is neither 4 nor 5 gives the
  invalid-enhanced-code error; otherwise, and always for a single argument, the error is
  the invalid-code error.
\<close>

theorem ParseRejectDirective_cases:
  "(ParseRejectDirective [] :: parse_error + 'e SMTPError) =
     Inr (SMTPError 554 (5, 7, 0) ''Message rejected due to a local policy'' [] None
            ''reject directive used'' []) \<and>
   (3 < length args \<longrightarrow>
      (ParseRejectDirective args :: parse_error + 'e SMTPError) = Inl ErrArgCount) \<and>
   (Atoi arg0 = Inr code \<and> leading_digit (nat \<bar>code\<bar>) \<noteq> 4 \<and> leading_digit (nat \<bar>code\<bar>) \<noteq> 5 \<longrightarrow>
      (ParseRejectDirective [arg0] :: parse_error + 'e SMTPError) = Inl ErrInvalidCode \<and>
      (\<exists>e. (ParseRejectDirective [arg0, arg1] :: parse_error + 'e SMTPError) = Inl e) \<and>
      (\<exists>e. (ParseRejectDirective [arg0, arg1, arg2] :: parse_error + 'e SMTPError) = Inl e) \<and>
      (arg2 = [] \<longrightarrow>
         (ParseRejectDirective [arg0, arg1, arg2] :: parse_error + 'e SMTPError) =
           Inl ErrEmptyMessage) \<and>
      (\<forall>e. parseEnhancedCode arg1 = Inl e \<longrightarrow>
           (ParseRejectDirective [arg0, arg1] :: parse_error + 'e SMTPError) = Inl e \<and>
           (arg2 \<noteq> [] \<longrightarrow>
              (ParseRejectDirective [arg0, arg1, arg2] :: parse_error + 'e SMTPError) = Inl e)) \<and>
      (\<forall>ec. parseEnhancedCode arg1 = Inr ec \<and> fst ec \<noteq> 4 \<and> fst ec \<noteq> 5 \<longrightarrow>
           (ParseRejectDirective [arg0, arg1] :: parse_error + 'e SMTPError) =
             Inl ErrInvalidEnhancedCode \<and>
           (arg2 \<noteq> [] \<longrightarrow>
              (ParseRejectDirective [arg0, arg1, arg2] :: parse_error + 'e SMTPError) =
                Inl ErrInvalidEnhancedCode)) \<and>
      (\<forall>ec. parseEnhancedCode arg1 = Inr ec \<and> (fst ec = 4 \<or> fst ec = 5) \<longrightarrow>
           (ParseRejectDirective [arg0, arg1] :: parse_error + 'e SMTPError) = Inl ErrInvalidCode \<and>
           (arg2 \<noteq> [] \<longrightarrow>
              (ParseRejectDirective [arg0, arg1, arg2] :: parse_error + 'e SMTPError) =
                Inl ErrInvalidCode)))"
proof (intro conjI impI allI)
  show "(ParseRejectDirective [] :: parse_error + 'e SMTPError) =
     Inr (SMTPError 554 (5, 7, 0) ''Message rejected due to a local policy'' [] None
            ''reject directive used'' [])"
    by (simp add: reject_error_def default_message_def)
next
  assume "3 < length args"
  then show "(ParseRejectDirective args :: parse_error + 'e SMTPError) = Inl ErrArgCount"
    by (rule ParseRejectDirective_long)
next
  assume "Atoi arg0 = Inr code \<and> leading_digit (nat \<bar>code\<bar>) \<noteq> 4 \<and> leading_digit (nat \<bar>code\<bar>) \<noteq> 5"
  then have c1: "reject_case1 arg0 ec msg = (Inl ErrInvalidCode :: parse_error + 'e SMTPError)"
    for ec msg
    by (intro reject_case1_bad_code [of arg0 code]) simp_all
  show "(ParseRejectDirective [arg0] :: parse_error + 'e SMTPError) = Inl ErrInvalidCode"
    by (simp add: c1)
  show "\<exists>e. (ParseRejectDirective [arg0, arg1] :: parse_error + 'e SMTPError) = Inl e"
    by (cases "parseEnhancedCode arg1") (simp_all add: reject_case2_def c1)
  show "\<exists>e. (ParseRejectDirective [arg0, arg1, arg2] :: parse_error + 'e SMTPError) = Inl e"
    by (cases "parseEnhancedCode arg1") (simp_all add: reject_case3_def reject_case2_def c1)
  show "(ParseRejectDirective [arg0, arg1, arg2] :: parse_error + 'e SMTPError) =
      Inl ErrEmptyMessage" if "arg2 = []"
    using that by (simp add: reject_case3_def)
  show "(ParseRejectDirective [arg0, arg1] :: parse_error + 'e SMTPError) = Inl e"
    if "parseEnhancedCode arg1 = Inl e" for e
    using that by (simp add: reject_case2_def)
  show "(ParseRejectDirective [arg0, arg1, arg2] :: parse_error + 'e SMTPError) = Inl e"
    if "parseEnhancedCode arg1 = Inl e" and "arg2 \<noteq> []" for e
    using that by (simp add: reject_case3_def reject_case2_def)
  show "(ParseRejectDirective [arg0, arg1] :: parse_error + 'e SMTPError) =
      Inl ErrInvalidEnhancedCode"
    if "parseEnhancedCode arg1 = Inr ec \<and> fst ec \<noteq> 4 \<and> fst ec \<noteq> 5" for ec
    using that by (simp add: reject_case2_def)
  show "(ParseRejectDirective [arg0, arg1, arg2] :: parse_error + 'e SMTPError) =
      Inl ErrInvalidEnhancedCode"
    if "parseEnhancedCode arg1 = Inr ec \<and> fst ec \<noteq> 4 \<and> fst ec \<noteq> 5" and "arg2 \<noteq> []" for ec
    using that by (simp add: reject_case3_def reject_case2_def)
  show "(ParseRejectDirective [arg0, arg1] :: parse_error + 'e SMTPError) = Inl ErrInvalidCode"
    if "parseEnhancedCode arg1 = Inr ec \<and> (fst ec = 4 \<or> fst ec = 5)" for ec
    using that by (auto simp: reject_case2_def c1)
  show "(ParseRejectDirective [arg0, arg1, arg2] :: parse_error + 'e SMTPError) =
      Inl ErrInvalidCode"
    if "parseEnhancedCode arg1 = Inr ec \<and> (fst ec = 4 \<or> fst ec = 5)" and "arg2 \<noteq> []" for ec
    using that by (auto simp: reject_case3_def reject_case2_def c1)
qed

text \<open>
  The theorem on four arguments, and on the code 300: alone, before a good enhanced code
  and message, before an empty message, before an enhanced code of one part, and before
  an enhanced code of class 3.
\<close>

theorem ParseRejectDirective_cases_witness:
  "3 < length [''550'', ''5.7.1'', ''no'', ''more''] \<and>
   (ParseRejectDirective [''550'', ''5.7.1'', ''no'', ''more''] :: parse_error + unit SMTPError) =
     Inl ErrArgCount \<and>
   Atoi ''300'' = Inr 300 \<and> leading_digit (nat \<bar>300\<bar>) \<noteq> 4 \<and> leading_digit (nat \<bar>300\<bar>) \<noteq> 5 \<and>
   parseEnhancedCode ''5.7.1'' = Inr (5, 7, 1) \<and>
   parseEnhancedCode ''abc'' = Inl ErrPartCount \<and>
   parseEnhancedCode ''3.7.1'' = Inr (3, 7, 1) \<and>
   (ParseRejectDirective [''300''] :: parse_error + unit SMTPError) = Inl ErrInvalidCode \<and>
   (ParseRejectDirective [''300'', ''5.7.1''] :: parse_error + unit SMTPError) = Inl ErrInvalidCode \<and>
   (ParseRejectDirective [''300'', ''5.7.1'', ''no''] :: parse_error + unit SMTPError) =
     Inl ErrInvalidCode \<and>
   (ParseRejectDirective [''300'', ''5.7.1'', []] :: parse_error + unit SMTPError) =
     Inl ErrEmptyMessage \<and>
   (ParseRejectDirective [''300'', ''abc''] :: parse_error + unit SMTPError) = Inl ErrPartCount \<and>
   (ParseRejectDirective [''300'', ''abc'', ''no''] :: parse_error + unit SMTPError) =
     Inl ErrPartCount \<and>
   (ParseRejectDirective [''300'', ''3.7.1''] :: parse_error + unit SMTPError) =
     Inl ErrInvalidEnhancedCode \<and>
   (ParseRejectDirective [''300'', ''3.7.1'', ''no''] :: parse_error + unit SMTPError) =
     Inl ErrInvalidEnhancedCode"
proof -
  have h: "Atoi ''300'' = Inr 300 \<and> leading_digit (nat \<bar>300\<bar>) \<noteq> 4 \<and> leading_digit (nat \<bar>300\<bar>) \<noteq> 5"
    by (simp add: eval_Atoi_300 leading_digit_300)
  have p1: "parseEnhancedCode ''abc'' = Inl ErrPartCount"
    by (simp add: parseEnhancedCode_def Split_str_def)
  have p2: "parseEnhancedCode ''3.7.1'' = Inr (3, 7, 1)"
    by (simp add: parseEnhancedCode_def Split_str_def Atoi_def digit_val_def)
  note good = ParseRejectDirective_cases [where ?'e = unit,
      of "[''550'', ''5.7.1'', ''no'', ''more'']" "''300''" 300 "''5.7.1''" "''no''"]
  note empty = ParseRejectDirective_cases [where ?'e = unit,
      of "[]" "''300''" 300 "''5.7.1''" "[]"]
  note parts = ParseRejectDirective_cases [where ?'e = unit,
      of "[]" "''300''" 300 "''abc''" "''no''"]
  note cls = ParseRejectDirective_cases [where ?'e = unit,
      of "[]" "''300''" 300 "''3.7.1''" "''no''"]
  have a: "(ParseRejectDirective [''550'', ''5.7.1'', ''no'', ''more''] :: parse_error + unit SMTPError) =
      Inl ErrArgCount \<and>
    (ParseRejectDirective [''300''] :: parse_error + unit SMTPError) = Inl ErrInvalidCode \<and>
    (ParseRejectDirective [''300'', ''5.7.1''] :: parse_error + unit SMTPError) = Inl ErrInvalidCode \<and>
    (ParseRejectDirective [''300'', ''5.7.1'', ''no''] :: parse_error + unit SMTPError) =
      Inl ErrInvalidCode"
    using good h eval_parseEnhancedCode_571 by simp
  have b: "(ParseRejectDirective [''300'', ''5.7.1'', []] :: parse_error + unit SMTPError) =
      Inl ErrEmptyMessage"
    using empty h by simp
  have c: "(ParseRejectDirective [''300'', ''abc''] :: parse_error + unit SMTPError) = Inl ErrPartCount \<and>
    (ParseRejectDirective [''300'', ''abc'', ''no''] :: parse_error + unit SMTPError) =
      Inl ErrPartCount"
    using parts h p1 by simp
  have d: "(ParseRejectDirective [''300'', ''3.7.1''] :: parse_error + unit SMTPError) =
      Inl ErrInvalidEnhancedCode \<and>
    (ParseRejectDirective [''300'', ''3.7.1'', ''no''] :: parse_error + unit SMTPError) =
      Inl ErrInvalidEnhancedCode"
    using cls h p2 by simp
  from a b c d h p1 p2 eval_parseEnhancedCode_571 show ?thesis by simp
qed

text \<open>
  C6, as the claim puts it, asks for the class of the enhanced code to be the first
  digit of the code. The single argument \<open>450\<close> is accepted and keeps the enhanced
  code \<open>5.7.0\<close> of the defaults.
\<close>

theorem ParseRejectDirective_consistency_counterexample:
  "(ParseRejectDirective [''450''] :: parse_error + unit SMTPError) =
     Inr (SMTPError 450 (5, 7, 0) ''Message rejected due to a local policy'' [] None
            ''reject directive used'' []) \<and>
   leading_digit (nat \<bar>Code (SMTPError 450 (5, 7, 0) ''Message rejected due to a local policy'' []
      (None :: unit error option) ''reject directive used'' [])\<bar>) = 4 \<and>
   fst (EnhancedCode (SMTPError 450 (5, 7, 0) ''Message rejected due to a local policy'' []
      (None :: unit error option) ''reject directive used'' [])) = 5"
  by (simp add: reject_case1_def Atoi_def digit_val_def go_quot_def reject_error_def
        default_message_def leading_digit_3digits)

text \<open>
  C6, amended. In every \<open>SMTPError\<close> that \<open>ParseRejectDirective\<close> returns the code
  lies between 400 and 599, so its first digit is 4 or 5, and the class of the enhanced
  code is 4 or 5; the parser checks each on its own and does not compare them.
\<close>

theorem ParseRejectDirective_classes:
  assumes "ParseRejectDirective args = Inr r"
  shows "400 \<le> Code r \<and> Code r \<le> 599 \<and>
         (leading_digit (nat \<bar>Code r\<bar>) = 4 \<or> leading_digit (nat \<bar>Code r\<bar>) = 5) \<and>
         (fst (EnhancedCode r) = 4 \<or> fst (EnhancedCode r) = 5)"
proof -
  from assms have q: "go_quot (Code r) 100 = 4 \<or> go_quot (Code r) 100 = 5"
    and ec: "fst (EnhancedCode r) = 4 \<or> fst (EnhancedCode r) = 5"
    using ParseRejectDirective_Inr by blast+
  from q have "400 \<le> Code r \<and> Code r \<le> 599" by (auto simp: go_quot_100_iff)
  moreover from q leading_digit_of_code [of "Code r"]
  have "leading_digit (nat \<bar>Code r\<bar>) = 4 \<or> leading_digit (nat \<bar>Code r\<bar>) = 5" by auto
  ultimately show ?thesis using ec by blast
qed

text \<open>
The theorem on three arguments that are accepted.
\<close>

theorem ParseRejectDirective_classes_witness:
  "(ParseRejectDirective [''450'', ''4.7.1'', ''try later''] :: parse_error + unit SMTPError) =
     Inr (SMTPError 450 (4, 7, 1) ''try later'' [] None ''reject directive used'' []) \<and>
   (leading_digit (nat \<bar>450\<bar>) = 4 \<or> leading_digit (nat \<bar>450\<bar>) = 5)"
proof -
  have h: "(ParseRejectDirective [''450'', ''4.7.1'', ''try later''] :: parse_error + unit SMTPError) =
     Inr (SMTPError 450 (4, 7, 1) ''try later'' [] None ''reject directive used'' [])"
    by (simp add: reject_case3_def reject_case2_def reject_case1_def parseEnhancedCode_def
          Split_str_def Atoi_def digit_val_def go_quot_def reject_error_def)
  from ParseRejectDirective_classes [OF h] h show ?thesis by simp
qed

section \<open>Enhanced codes\<close>

text \<open>
  C7, as the claim puts it, asks for a format error on a negative part.
  \<^verbatim>\<open>strconv.Atoi\<close> accepts a sign, and \<open>parseEnhancedCode\<close> does not look at the sign
  of what it returns.
\<close>

theorem parseEnhancedCode_negative_counterexample:
  "parseEnhancedCode ''5.-7.1'' = Inr (5, - 7, 1) \<and> (- 7 :: int) < 0"
  by (simp add: parseEnhancedCode_def Split_str_def Atoi_def digit_val_def)

text \<open>
  C7, amended. \<open>parseEnhancedCode s\<close> succeeds exactly when \<open>s\<close> splits at the dots into
  three parts that \<^verbatim>\<open>strconv.Atoi\<close> accepts (decimal digits after an optional sign,
  within the range of \<^verbatim>\<open>int\<close>), and then returns the three integers, negative ones
  included; \<open>5.7.1\<close> gives \<open>{5,7,1}\<close>. In every other case it fails with a format
  error: the one about the number of parts, as for \<open>5.7\<close>, or the error of
  \<^verbatim>\<open>strconv.Atoi\<close> on the first part it refuses, as for \<open>a.b.c\<close>.
\<close>

theorem parseEnhancedCode_spec:
  "(parseEnhancedCode s = Inr (a, b, c) \<longleftrightarrow>
      (\<exists>p0 p1 p2. Split_str s (CHR ''.'') = [p0, p1, p2] \<and>
         Atoi p0 = Inr a \<and> Atoi p1 = Inr b \<and> Atoi p2 = Inr c)) \<and>
   (\<forall>e. parseEnhancedCode s = Inl e \<longrightarrow> e = ErrPartCount \<or> (\<exists>p k. e = ErrNum p k)) \<and>
   parseEnhancedCode ''5.7.1'' = Inr (5, 7, 1) \<and>
   parseEnhancedCode ''5.7'' = Inl ErrPartCount \<and>
   parseEnhancedCode ''a.b.c'' = Inl (ErrNum ''a'' ErrSyntax)"
proof (intro conjI allI impI)
  show "parseEnhancedCode s = Inr (a, b, c) \<longleftrightarrow>
      (\<exists>p0 p1 p2. Split_str s (CHR ''.'') = [p0, p1, p2] \<and>
         Atoi p0 = Inr a \<and> Atoi p1 = Inr b \<and> Atoi p2 = Inr c)"
    by (rule parseEnhancedCode_Inr_iff)
  show "e = ErrPartCount \<or> (\<exists>p k. e = ErrNum p k)" if "parseEnhancedCode s = Inl e" for e
    using that by (rule parseEnhancedCode_Inl)
  show "parseEnhancedCode ''5.7.1'' = Inr (5, 7, 1)"
    by (rule eval_parseEnhancedCode_571)
  show "parseEnhancedCode ''5.7'' = Inl ErrPartCount"
    by (simp add: parseEnhancedCode_def Split_str_def)
  show "parseEnhancedCode ''a.b.c'' = Inl (ErrNum ''a'' ErrSyntax)"
    by (simp add: parseEnhancedCode_def Split_str_def Atoi_def digit_val_def)
qed

text \<open>
The theorem on a code with signs, and on a code with an empty part.
\<close>

theorem parseEnhancedCode_spec_witness:
  "parseEnhancedCode ''4.+0.-1'' = Inr (4, 0, - 1) \<and>
   (\<exists>p0 p1 p2. Split_str ''4.+0.-1'' (CHR ''.'') = [p0, p1, p2] \<and>
      Atoi p0 = Inr 4 \<and> Atoi p1 = Inr 0 \<and> Atoi p2 = Inr (- 1)) \<and>
   parseEnhancedCode ''4..1'' = Inl (ErrNum [] ErrSyntax) \<and>
   (ErrNum [] ErrSyntax = ErrPartCount \<or> (\<exists>p k. ErrNum [] ErrSyntax = ErrNum p k))"
proof -
  have h: "parseEnhancedCode ''4.+0.-1'' = Inr (4, 0, - 1)"
    by (simp add: parseEnhancedCode_def Split_str_def Atoi_def digit_val_def)
  have g: "parseEnhancedCode ''4..1'' = Inl (ErrNum [] ErrSyntax)"
    by (simp add: parseEnhancedCode_def Split_str_def Atoi_def digit_val_def)
  from parseEnhancedCode_spec [of "''4.+0.-1''" 4 0 "- 1"] h
  have "\<exists>p0 p1 p2. Split_str ''4.+0.-1'' (CHR ''.'') = [p0, p1, p2] \<and>
      Atoi p0 = Inr 4 \<and> Atoi p1 = Inr 0 \<and> Atoi p2 = Inr (- 1)"
    by blast
  moreover from parseEnhancedCode_spec [of "''4..1''" 0 0 0] g
  have "ErrNum [] ErrSyntax = ErrPartCount \<or> (\<exists>p k. ErrNum [] ErrSyntax = ErrNum p k)"
    by blast
  ultimately show ?thesis using h g by blast
qed

section \<open>The MX validator\<close>



text \<open>
  C9. When \<^verbatim>\<open>address.Split\<close> refuses the return path, the reason of \<open>requireMXRecord\<close>
  is the parse error wrapped with the field \<open>check\<close> set to \<open>require_matching_rdns\<close>,
  the name of another validator, and not to \<open>require_mx_record\<close>, which every other
  failure of \<open>requireMXRecord\<close> carries (lemma \<open>requireMXRecord_check_names\<close>).
\<close>

theorem requireMXRecord_parse_failure_names_rdns:
  "Reason (fst (requireMXRecord example_ext (example_ctx ''mail.example'') ''bob'')) =
     Some (WithFields (Foreign (''address: missing at-sign'', False))
             [(''check'', ''require_matching_rdns'')]) \<and>
   check_name_of (WithFields (Foreign (''address: missing at-sign'', False))
                    [(''check'', ''require_matching_rdns'')]) = Some ''require_matching_rdns'' \<and>
   ''require_matching_rdns'' \<noteq> ''require_mx_record''"
  by (simp add: requireMXRecord_def example_ext_def fail_def)

section \<open>The action directive\<close>

text \<open>
  C10. Every list of arguments that starts with \<open>ignore\<close> is accepted, whatever
  follows: the result has neither flag set and no reason override.
\<close>

theorem ParseActionDirective_ignore:
  "ParseActionDirective (''ignore'' # rest) =
     Inr \<lparr>Quarantine = False, Reject = False, ReasonOverride = None\<rparr>"
  by (simp add: ParseActionDirective_def)

end
